theory Spec2Isabelle
  imports Complex_Main "HOL-Library.Sublist" "HOL-Library.AList"
begin

unbundle bit_operations_syntax

section \<open>Python values, exceptions and the standard library\<close>

text \<open>
  The repository is a set of Python modules. An exception is a value of \<open>py_error\<close>; a
  function that can raise returns \<open>py_error + 'a\<close>, \<open>Inl\<close> being the raise.
\<close>

datatype py_error =
    NameError string
  | AttributeError string
  | TypeError string
  | KeyError string
  | ValueError string

text \<open>
  Values stored in a block dictionary. \<open>PyUni\<close> is a \<open>str\<close> given by its code points
  (the output of \<open>soft_encrypt\<close>, which works on \<open>ord\<close>/\<open>chr\<close>); \<open>PyStr\<close> is a
  \<open>str\<close> that the program only compares, slices and concatenates.
\<close>

datatype pyval = PyInt int | PyFloat real | PyStr string | PyUni "nat list"

type_synonym pydict = "(string \<times> pyval) list"

text \<open>\<open>d[k]\<close>: a missing key raises \<open>KeyError\<close>.\<close>

definition dict_get :: "pydict \<Rightarrow> string \<Rightarrow> py_error + pyval" where
  "dict_get d k = (case map_of d k of None \<Rightarrow> Inl (KeyError k) | Some v \<Rightarrow> Inr v)"

text \<open>\<open>x + 1\<close> on a dictionary value: defined on numbers, \<open>TypeError\<close> on a \<open>str\<close>.\<close>

fun py_add_one :: "pyval \<Rightarrow> py_error + pyval" where
  "py_add_one (PyInt n) = Inr (PyInt (n + 1))"
| "py_add_one (PyFloat x) = Inr (PyFloat (x + 1))"
| "py_add_one (PyStr s) = Inl (TypeError ''can only concatenate str (not int) to str'')"
| "py_add_one (PyUni s) = Inl (TypeError ''can only concatenate str (not int) to str'')"

text \<open>
  The state of the global Mersenne Twister of module \<open>random\<close>: it is determined by the
  last seed and the number of 32-bit words drawn since.
\<close>

datatype rng_state = Seeded int nat

definition random_seed :: "int \<Rightarrow> rng_state" where
  "random_seed a = Seeded \<bar>a\<bar> 0"

fun rng_advance :: "nat \<Rightarrow> rng_state \<Rightarrow> rng_state" where
  "rng_advance k (Seeded s n) = Seeded s (n + k)"

text \<open>
  The functions of the standard library that the modules call and that are not part of
  the repository: the hex digests of \<open>hashlib\<close>, float formatting, \<open>json.dumps\<close> with
  sorted keys, \<open>time.ctime\<close>, and the 64 bits \<open>random.getrandbits(64)\<close> returns in a
  given generator state. A \<open>float\<close> is the real number it denotes; \<open>float_mul\<close> and
  \<open>float_div\<close> are the product and the quotient of two floats as the machine computes
  them, rounded to a double. Every theorem below holds for all of them.
\<close>

record pylib =
  sha256_hexdigest :: "string \<Rightarrow> string"
  sha512_hexdigest :: "string \<Rightarrow> string"
  format_7f :: "real \<Rightarrow> string"
  float_str :: "real \<Rightarrow> string"
  float_mul :: "real \<Rightarrow> real \<Rightarrow> real"
  float_div :: "real \<Rightarrow> real \<Rightarrow> real"
  json_dumps_sorted :: "pydict \<Rightarrow> string"
  ctime :: "real \<Rightarrow> string"
  getrandbits64 :: "rng_state \<Rightarrow> nat"

text \<open>
  What a call can read and change outside its object: the value \<open>time.time()\<close> returns
  and the state of the global random generator.
\<close>

record world =
  clock :: real
  rng :: rng_state

text \<open>\<open>str(n)\<close> for a non-negative \<open>int\<close>, and \<open>format(n, 'x')\<close>.\<close>

fun str_nat :: "nat \<Rightarrow> string" where
  "str_nat n =
     (if n < 10 then [char_of (48 + n)]
      else str_nat (n div 10) @ [char_of (48 + n mod 10)])"

declare str_nat.simps [simp del]

definition hex_digit :: "nat \<Rightarrow> char" where
  "hex_digit d = (if d < 10 then char_of (48 + d) else char_of (87 + d))"

fun hex_nat :: "nat \<Rightarrow> string" where
  "hex_nat n =
     (if n < 16 then [hex_digit n]
      else hex_nat (n div 16) @ [hex_digit (n mod 16)])"

declare hex_nat.simps [simp del]

text \<open>\<open>s.upper()\<close> on ASCII text.\<close>

definition upper_char :: "char \<Rightarrow> char" where
  "upper_char c =
     (if 97 \<le> (of_char c :: nat) \<and> (of_char c :: nat) \<le> 122
      then char_of ((of_char c :: nat) - 32) else c)"

definition upper :: "string \<Rightarrow> string" where
  "upper s = map upper_char s"

text \<open>\<open>int(x)\<close> on a float truncates towards zero.\<close>

definition py_int :: "real \<Rightarrow> int" where
  "py_int x = (if 0 \<le> x then \<lfloor>x\<rfloor> else \<lceil>x\<rceil>)"

text \<open>\<open>chr(i)\<close> raises \<open>ValueError\<close> outside \<open>range(0x110000)\<close>.\<close>

definition py_chr :: "nat \<Rightarrow> py_error + nat" where
  "py_chr i =
     (if i < 1114112 then Inr i
      else Inl (ValueError ''chr() arg not in range(0x110000)''))"

text \<open>A \<open>str\<close>: a list of code points below \<open>0x110000\<close>.\<close>

definition is_pystr :: "nat list \<Rightarrow> bool" where
  "is_pystr s = list_all (\<lambda>c. c < 1114112) s"


section \<open>TOKEN\_1\_SNIFFEE/security\_hasher.py\<close>

text \<open>
  The names bound at module level in \<open>security_hasher.py\<close>: its imports are
  \<^verbatim>\<open>import hashlib\<close>, \<^verbatim>\<open>import random\<close> and \<^verbatim>\<open>from typing import Union\<close>, and it defines
  the class. The module does not import \<open>time\<close>.
\<close>

definition security_hasher_globals :: "string list" where
  "security_hasher_globals = [''hashlib'', ''random'', ''Union'', ''SecurityHasher'']"

definition CONSTELLATION_HASH_LENGTH :: nat where
  "CONSTELLATION_HASH_LENGTH = 128"

text \<open>\<^verbatim>\<open>return hashlib.sha256(data.encode('utf-8')).hexdigest()\<close>\<close>

definition sha256_hash :: "pylib \<Rightarrow> string \<Rightarrow> string" where
  "sha256_hash L data = sha256_hexdigest L data"

text \<open>\<^verbatim>\<open>return "0" * 64\<close>\<close>

definition placeholder_hash :: string where
  "placeholder_hash = replicate 64 (CHR ''0'')"

text \<open>
  \<^verbatim>\<open>key = 42; encrypted_chars = [chr(ord(char) ^ key) for char in data]\<close>
  \<^verbatim>\<open>return "".join(encrypted_chars)\<close>
\<close>

fun soft_encrypt :: "nat list \<Rightarrow> py_error + nat list" where
  "soft_encrypt [] = Inr []"
| "soft_encrypt (c # cs) =
     (case py_chr (c XOR 42) of
        Inl e \<Rightarrow> Inl e
      | Inr d \<Rightarrow>
          (case soft_encrypt cs of
             Inl e \<Rightarrow> Inl e
           | Inr ds \<Rightarrow> Inr (d # ds)))"

text \<open>
  \<open>_fictional_sha4091_logic\<close>. The name \<open>time\<close> is looked up in the module's globals
  \<open>g\<close> when the argument of \<open>random.seed\<close> is evaluated, after \<open>base_hash\<close> has been
  computed and before the generator is touched; an unbound name raises \<open>NameError\<close>.
  \<^verbatim>\<open>base_hash = hashlib.sha512(seed.encode('utf-8')).hexdigest()\<close>
  \<^verbatim>\<open>random.seed(int(time.time() * 1000) % 10000)\<close>
  \<^verbatim>\<open>random_factor = format(random.getrandbits(64), 'x')\<close>
  \<^verbatim>\<open>final_seed = base_hash + random_factor\<close>
  \<^verbatim>\<open>return hashlib.sha512(final_seed.encode('utf-8')).hexdigest()[:self.CONSTELLATION_HASH_LENGTH]\<close>
\<close>

text \<open>
  The seed \<^verbatim>\<open>int(time.time() * 1000) % 10000\<close>: the product is a float multiplication.
\<close>

definition clock_seed :: "pylib \<Rightarrow> world \<Rightarrow> int" where
  "clock_seed L w = py_int (float_mul L (clock w) 1000) mod 10000"

definition fictional_sha4091_logic ::
  "string list \<Rightarrow> pylib \<Rightarrow> world \<Rightarrow> string \<Rightarrow> (py_error + string) \<times> world" where
  "fictional_sha4091_logic g L w seed =
     (let base_hash = sha512_hexdigest L seed in
      if ''time'' \<notin> set g then (Inl (NameError ''time''), w)
      else
        (let seeded = random_seed (clock_seed L w);
             random_factor = hex_nat (getrandbits64 L seeded);
             final_seed = base_hash @ random_factor
         in (Inr (take CONSTELLATION_HASH_LENGTH (sha512_hexdigest L final_seed)),
             w\<lparr>rng := rng_advance 2 seeded\<rparr>)))"

text \<open>
  \<^verbatim>\<open>lock_seed = f"{hard_hash}-{complexity:.7f}-{reward_type}"\<close>
  \<^verbatim>\<open>constellation_hash = self._fictional_sha4091_logic(lock_seed)\<close>
  \<^verbatim>\<open>return f"CONSTELLATION_LOCK:{constellation_hash.upper()}"\<close>
\<close>

definition constellation_lock_key ::
  "string list \<Rightarrow> pylib \<Rightarrow> world \<Rightarrow> string \<Rightarrow> real \<Rightarrow> string \<Rightarrow> (py_error + string) \<times> world" where
  "constellation_lock_key g L w hard_hash complexity reward_type =
     (let lock_seed = hard_hash @ ''-'' @ format_7f L complexity @ ''-'' @ reward_type in
      case fictional_sha4091_logic g L w lock_seed of
        (Inl e, w') \<Rightarrow> (Inl e, w')
      | (Inr constellation_hash, w') \<Rightarrow>
          (Inr (''CONSTELLATION_LOCK:'' @ upper constellation_hash), w'))"


section \<open>CORE\_SYSTEMS/block\_stamping\_engine.py\<close>

text \<open>The fields \<open>__init__\<close> sets; a block is a dictionary.\<close>

record engine =
  blockchain :: "pydict list"
  current_complexity :: real

text \<open>\<^verbatim>\<open>self.current_complexity = new_complexity\<close>\<close>

definition update_complexity :: "engine \<Rightarrow> real \<Rightarrow> engine" where
  "update_complexity e new_complexity = e\<lparr>current_complexity := new_complexity\<rparr>"

text \<open>
  \<^verbatim>\<open>if not self.blockchain:\<close>
  \<^verbatim>\<open>    return {"HARDCOVER_CRYPTION": self.hasher.placeholder_hash(), "BLOCK_INDEX": 0}\<close>
  \<^verbatim>\<open>return self.blockchain[-1]\<close>
\<close>

definition get_last_block :: "engine \<Rightarrow> pydict" where
  "get_last_block e =
     (if blockchain e = []
      then [(''HARDCOVER_CRYPTION'', PyStr placeholder_hash), (''BLOCK_INDEX'', PyInt 0)]
      else last (blockchain e))"

text \<open>
  \<open>_prepare_block_data\<close>: the dictionary literal, in the source's key order; \<open>ts\<close> is the
  value of \<open>time.time()\<close>. The last entry calls \<open>soft_encrypt\<close> on the code points of
  \<open>str(miner_address) + reward_type\<close>.
\<close>

definition prepare_block_data ::
  "pylib \<Rightarrow> engine \<Rightarrow> real \<Rightarrow> pyval \<Rightarrow> pyval \<Rightarrow> string \<Rightarrow> string \<Rightarrow> int \<Rightarrow> int \<Rightarrow> string
     \<Rightarrow> py_error + pydict" where
  "prepare_block_data L e ts index previous_hash miner_address reward_type reward_amount
       binary_transit_no seedframe =
     (case soft_encrypt (map of_char (miner_address @ reward_type)) of
        Inl err \<Rightarrow> Inl err
      | Inr enc \<Rightarrow>
          Inr [(''BLOCK_INDEX'', index),
               (''TIME'', PyStr (ctime L ts)),
               (''TIMESTAMP'', PyFloat ts),
               (''PREVIOUS_HASH'', previous_hash),
               (''COMPLEXITY_LEVEL'', PyFloat (current_complexity e)),
               (''WINNERS_ADDRESSES'', PyStr miner_address),
               (''REWARD_CHAIN'', PyStr reward_type),
               (''REWARD_AMOUNT'', PyInt reward_amount),
               (''SEEDFRAME'', PyStr seedframe),
               (''BINARY-TRANSIT-NO'', PyInt binary_transit_no),
               (''SOFT-ENCRYPTER'', PyUni enc)])"

text \<open>
  \<open>stamp_new_block\<close>. The hasher's methods run in the globals \<open>g\<close> of their module. The
  method returns the block; it does not append it and changes no field of the engine.
  The parameter \<open>is_genesis\<close> is not used in the body.
  \<^verbatim>\<open>last_block = self._get_last_block()\<close>
  \<^verbatim>\<open>index = last_block["BLOCK_INDEX"] + 1\<close>
  \<^verbatim>\<open>previous_hash = last_block["HARDCOVER_CRYPTION"]\<close>
  \<^verbatim>\<open>new_block = self._prepare_block_data(index, previous_hash, ...)\<close>
  \<^verbatim>\<open>block_content_string = json.dumps(new_block, sort_keys=True)\<close>
  \<^verbatim>\<open>hard_hash = self.hasher.sha256_hash(block_content_string)\<close>
  \<^verbatim>\<open>new_block["HARDCOVER_CRYPTION"] = hard_hash\<close>
  \<^verbatim>\<open>constellation_lock = self.hasher.constellation_lock_key(hard_hash, self.current_complexity, reward_type)\<close>
  \<^verbatim>\<open>new_block["CONSTELLATION-SECURITY"] = constellation_lock\<close>
  \<^verbatim>\<open>return new_block\<close>
\<close>

definition stamp_new_block ::
  "string list \<Rightarrow> pylib \<Rightarrow> world \<Rightarrow> engine \<Rightarrow> real \<Rightarrow> string \<Rightarrow> string \<Rightarrow> int \<Rightarrow> int \<Rightarrow> string
     \<Rightarrow> bool \<Rightarrow> (py_error + pydict) \<times> world" where
  "stamp_new_block g L w e ts miner_address reward_type reward_amount binary_transit_no
       seedframe is_genesis =
     (let last_block = get_last_block e in
      case dict_get last_block ''BLOCK_INDEX'' of
        Inl err \<Rightarrow> (Inl err, w)
      | Inr last_index \<Rightarrow>
     (case py_add_one last_index of
        Inl err \<Rightarrow> (Inl err, w)
      | Inr index \<Rightarrow>
     (case dict_get last_block ''HARDCOVER_CRYPTION'' of
        Inl err \<Rightarrow> (Inl err, w)
      | Inr previous_hash \<Rightarrow>
     (case prepare_block_data L e ts index previous_hash miner_address reward_type
             reward_amount binary_transit_no seedframe of
        Inl err \<Rightarrow> (Inl err, w)
      | Inr new_block \<Rightarrow>
          (let hard_hash = sha256_hash L (json_dumps_sorted L new_block);
               hashed_block = AList.update ''HARDCOVER_CRYPTION'' (PyStr hard_hash) new_block
           in case constellation_lock_key g L w hard_hash (current_complexity e) reward_type of
                (Inl err, w') \<Rightarrow> (Inl err, w')
              | (Inr constellation_lock, w') \<Rightarrow>
                  (Inr (AList.update ''CONSTELLATION-SECURITY'' (PyStr constellation_lock)
                          hashed_block), w'))))))"

text \<open>The caller's \<^verbatim>\<open>self.blockchain.append(block)\<close>.\<close>

definition append_block :: "engine \<Rightarrow> pydict \<Rightarrow> engine" where
  "append_block e b = e\<lparr>blockchain := blockchain e @ [b]\<rparr>"


section \<open>TOKEN\_1\_SNIFFEE/wifi\_analyzer.py\<close>

text \<open>
  \<open>get_node_traffic_snapshot\<close> draws its packet lists at random and hashes them with the
  current time. A \<open>snapshot\<close> is the outcome of one such call: the lengths of
  \<open>packets_in\<close> and \<open>packets_out\<close>, the latency and the digest
  \<open>generate_data_proof_hash()\<close> returns.
\<close>

record snapshot =
  snap_packets_in :: nat
  snap_packets_out :: nat
  snap_latency_ms :: real
  snap_proof_hash :: string

record io_traffic_details =
  packets_in :: nat
  packets_out :: nat
  total_packet_count :: nat
  simulated_latency_ms :: real

record node_data =
  node_address :: string
  data_proof_hash :: string
  io_traffic_details :: io_traffic_details

text \<open>
  The dictionary \<open>aggregate_all_node_traffic\<close> appends for one address;
  \<open>total_packet_count\<close> is \<^verbatim>\<open>len(self.packets_in) + len(self.packets_out)\<close>.
\<close>

definition node_entry :: "string \<Rightarrow> snapshot \<Rightarrow> node_data" where
  "node_entry a sn =
     \<lparr>node_address = a,
      data_proof_hash = snap_proof_hash sn,
      io_traffic_details =
        \<lparr>packets_in = snap_packets_in sn,
         packets_out = snap_packets_out sn,
         total_packet_count = snap_packets_in sn + snap_packets_out sn,
         simulated_latency_ms = snap_latency_ms sn\<rparr>\<rparr>"

text \<open>
  \<^verbatim>\<open>for address in node_addresses: snapshot = self.get_node_traffic_snapshot(address); ...\<close>
  \<open>draw i\<close> is the snapshot drawn for the \<open>i\<close>-th address of the call.
\<close>

definition aggregate_all_node_traffic :: "(nat \<Rightarrow> snapshot) \<Rightarrow> string list \<Rightarrow> node_data list" where
  "aggregate_all_node_traffic draw node_addresses =
     map (\<lambda>(i, a). node_entry a (draw i)) (enumerate 0 node_addresses)"


section \<open>TOKEN\_1\_SNIFFEE/favorite\_seed\_generator.py\<close>

record seed_frame =
  seed_timestamp :: int
  seed_frame_id :: string
  favorite_algorithm :: string
  complexity_factor :: real
  target_seed_transaction :: string
  constellation_lock_signature :: string

text \<open>The generator's only field is \<open>_current_seed_frame\<close>.\<close>

record seed_generator =
  current_seed_frame :: seed_frame

definition FAVORITE_ALGORITHM_FACTORS :: "(string \<times> real) list" where
  "FAVORITE_ALGORITHM_FACTORS =
     [(''HighThroughput_SHA512'', 3 / 2),
      (''LowLatency_SHA256'', 5 / 4),
      (''DenseTopology_SCRAMBLE'', 7 / 4),
      (''RandomizedNoise_XOR'', 2)]"

definition TARGET_SEED_LENGTH :: nat where
  "TARGET_SEED_LENGTH = 64"

text \<open>
  What one call of \<open>_generate_new_seed_frame\<close> reads from outside: the index
  \<open>random.choice\<close> picks, the three readings of \<open>time.time()\<close> and the value of
  \<open>random.getrandbits(128)\<close>.
\<close>

record seed_entropy =
  choice_index :: nat
  seed_time :: real
  seed_randbits :: nat
  lock_time :: real
  stamp_time :: real

text \<open>
  \<^verbatim>\<open>favorite_key = self._select_random_favorite()\<close>
  \<^verbatim>\<open>target_seed = self._generate_complex_seed(favorite_key)\<close>, that is
  \<^verbatim>\<open>hashlib.sha512(f"{favorite_key}-{time.time() * factor}-{random.getrandbits(128)}".encode('utf-8')).hexdigest()[:64]\<close>;
  the lock signature is \<^verbatim>\<open>hashlib.sha256(f"{target_seed}-{int(time.time() / 3600)}".encode('utf-8')).hexdigest()\<close>.
  The chosen key is one of the four keys of the table.
\<close>

definition str_int :: "int \<Rightarrow> string" where
  "str_int i = (if i < 0 then ''-'' @ str_nat (nat (- i)) else str_nat (nat i))"

definition generate_new_seed_frame :: "pylib \<Rightarrow> seed_entropy \<Rightarrow> seed_frame" where
  "generate_new_seed_frame L en =
     (let (favorite_key, factor) = FAVORITE_ALGORITHM_FACTORS ! (choice_index en mod 4);
          complex_input =
            favorite_key @ ''-'' @ float_str L (float_mul L (seed_time en) factor) @ ''-''
              @ str_nat (seed_randbits en);
          target_seed = take TARGET_SEED_LENGTH (sha512_hexdigest L complex_input)
      in \<lparr>seed_timestamp = py_int (stamp_time en),
          seed_frame_id = take 16 (sha256_hexdigest L target_seed),
          favorite_algorithm = favorite_key,
          complexity_factor = factor,
          target_seed_transaction = target_seed,
          constellation_lock_signature =
            sha256_hexdigest L (target_seed @ ''-'' @ str_int (py_int (float_div L (lock_time en) 3600)))\<rparr>)"

text \<open>\<open>__init__\<close>: \<^verbatim>\<open>self._current_seed_frame = self._generate_new_seed_frame()\<close>\<close>

definition FavoriteSeedGenerator_init :: "pylib \<Rightarrow> seed_entropy \<Rightarrow> seed_generator" where
  "FavoriteSeedGenerator_init L en = \<lparr>current_seed_frame = generate_new_seed_frame L en\<rparr>"

text \<open>\<^verbatim>\<open>return self._current_seed_frame["target_seed_transaction"]\<close>\<close>

definition generate_favorite_seed :: "seed_generator \<Rightarrow> string" where
  "generate_favorite_seed gen = target_seed_transaction (current_seed_frame gen)"

text \<open>
  \<open>refresh_seed\<close>: \<^verbatim>\<open>self._current_seed_frame = self._generate_new_seed_frame()\<close>. Its
  docstring: ``Should only be called by the Consensus Manager after a successful SDB
  block stamp.'' No module of the repository calls it.
\<close>

definition refresh_seed :: "pylib \<Rightarrow> seed_entropy \<Rightarrow> seed_generator \<Rightarrow> seed_generator" where
  "refresh_seed L en gen = gen\<lparr>current_seed_frame := generate_new_seed_frame L en\<rparr>"


section \<open>TOKEN\_1\_SNIFFEE/sdb\_reward\_logic.py\<close>

definition SDB_REWARD_AMOUNT :: int where
  "SDB_REWARD_AMOUNT = 300"

definition SDB_CYCLE_TIME_SECONDS :: real where
  "SDB_CYCLE_TIME_SECONDS = 30 * 60"

definition MATCH_DIFFICULTY_LENGTH :: nat where
  "MATCH_DIFFICULTY_LENGTH = 5"

text \<open>The fields of \<open>SDBRewardLogic\<close> that a run reads or writes.\<close>

record sdb_logic =
  seed_generator :: seed_generator
  sdb_last_reward_time :: real

text \<open>The dictionary \<open>run_sdb_consensus\<close> returns for a winner.\<close>

record sdb_reward =
  sdb_winner_address :: string
  sdb_reward_amount :: int
  sdb_binary_transit_no :: nat
  sdb_seedframe :: string
  sdb_reward_type :: string
  sdb_proof_data :: node_data

text \<open>
  The loop of \<open>_find_seed_match_winner\<close>:
  \<^verbatim>\<open>for node_data in eligible_nodes_data:\<close>
  \<^verbatim>\<open>    node_proof = node_data["data_proof_hash"]\<close>
  \<^verbatim>\<open>    if node_proof.startswith(match_prefix): return node_data\<close>
  \<^verbatim>\<open>return None\<close>
\<close>

fun scan_for_prefix :: "string \<Rightarrow> node_data list \<Rightarrow> node_data option" where
  "scan_for_prefix match_prefix [] = None"
| "scan_for_prefix match_prefix (nd # rest) =
     (if prefix match_prefix (data_proof_hash nd) then Some nd
      else scan_for_prefix match_prefix rest)"

text \<open>\<^verbatim>\<open>match_prefix = target_seed[:self.MATCH_DIFFICULTY_LENGTH]\<close>, then the loop.\<close>

definition find_seed_match_winner :: "node_data list \<Rightarrow> string \<Rightarrow> node_data option" where
  "find_seed_match_winner eligible_nodes_data target_seed =
     scan_for_prefix (take MATCH_DIFFICULTY_LENGTH target_seed) eligible_nodes_data"

text \<open>
  \<open>run_sdb_consensus\<close>. \<open>now\<close> is the reading of \<open>time.time()\<close> at the interval check and
  \<open>now'\<close> the reading at \<^verbatim>\<open>self.last_reward_time = time.time()\<close>. The result is the value
  returned and the object after the call.
  \<^verbatim>\<open>if time.time() - self.last_reward_time < self.SDB_CYCLE_TIME_SECONDS: return None\<close>
  \<^verbatim>\<open>if not all_active_nodes: return None\<close>
  \<^verbatim>\<open>target_seed = self.seed_generator.generate_favorite_seed()\<close>
  \<^verbatim>\<open>eligible_nodes_data = self.analyzer.aggregate_all_node_traffic(all_active_nodes)\<close>
  \<^verbatim>\<open>winner_data = self._find_seed_match_winner(eligible_nodes_data, target_seed)\<close>
  \<^verbatim>\<open>if not winner_data: return None\<close>
  \<^verbatim>\<open>self.last_reward_time = time.time()\<close>
  \<^verbatim>\<open>return {"winner_address": winner_data["node_address"], ...}\<close>
\<close>

definition run_sdb_consensus ::
  "real \<Rightarrow> real \<Rightarrow> (nat \<Rightarrow> snapshot) \<Rightarrow> sdb_logic \<Rightarrow> string list \<Rightarrow> sdb_reward option \<times> sdb_logic" where
  "run_sdb_consensus now now' draw self all_active_nodes =
     (if now - sdb_last_reward_time self < SDB_CYCLE_TIME_SECONDS then (None, self)
      else if all_active_nodes = [] then (None, self)
      else
        (let target_seed = generate_favorite_seed (seed_generator self);
             eligible_nodes_data = aggregate_all_node_traffic draw all_active_nodes
         in case find_seed_match_winner eligible_nodes_data target_seed of
              None \<Rightarrow> (None, self)
            | Some winner_data \<Rightarrow>
                (Some \<lparr>sdb_winner_address = node_address winner_data,
                       sdb_reward_amount = SDB_REWARD_AMOUNT,
                       sdb_binary_transit_no =
                         total_packet_count (io_traffic_details winner_data),
                       sdb_seedframe = target_seed,
                       sdb_reward_type = ''@SNIFFEE-DEBUGEE'',
                       sdb_proof_data = winner_data\<rparr>,
                 self\<lparr>sdb_last_reward_time := now'\<rparr>)))"


section \<open>TOKEN\_2\_BTZCY/ping\_nmap\_verifier.py\<close>

definition MINIMUM_VERIFICATION_HASH_DIFFICULTY :: string where
  "MINIMUM_VERIFICATION_HASH_DIFFICULTY = ''000''"

record verifier =
  difficulty_target :: string

text \<open>\<open>__init__\<close>: \<^verbatim>\<open>self.difficulty_target = self.MINIMUM_VERIFICATION_HASH_DIFFICULTY\<close>\<close>

definition PingNmapVerifier_init :: verifier where
  "PingNmapVerifier_init = \<lparr>difficulty_target = MINIMUM_VERIFICATION_HASH_DIFFICULTY\<rparr>"

text \<open>
  The loop of \<open>_generate_proof_of_verification_work\<close>, entered with the value of
  \<open>nonce\<close>; \<open>H\<close> is \<^verbatim>\<open>hashlib.sha256(...).hexdigest()\<close>. The second component counts the
  passes through the loop body up to the return, the pass that returns included.
  \<^verbatim>\<open>while True:\<close>
  \<^verbatim>\<open>    attempt = f"{raw_data}{nonce}"\<close>
  \<^verbatim>\<open>    hash_result = hashlib.sha256(attempt.encode('utf-8')).hexdigest()\<close>
  \<^verbatim>\<open>    if hash_result.startswith(self.difficulty_target): return hash_result\<close>
  \<^verbatim>\<open>    nonce += 1\<close>
  \<^verbatim>\<open>    if nonce > 10000: return f"NonceExceeded-{hash_result[:10]}"\<close>
\<close>

function pow_loop :: "(string \<Rightarrow> string) \<Rightarrow> string \<Rightarrow> string \<Rightarrow> nat \<Rightarrow> string \<times> nat" where
  "pow_loop H target raw_data nonce =
     (if prefix target (H (raw_data @ str_nat nonce)) then (H (raw_data @ str_nat nonce), 1)
      else if nonce + 1 > 10000
        then (''NonceExceeded-'' @ take 10 (H (raw_data @ str_nat nonce)), 1)
      else (let (res, passes) = pow_loop H target raw_data (nonce + 1) in (res, passes + 1)))"
  by pat_completeness auto
termination
  by (relation "measure (\<lambda>(H, target, raw_data, nonce). 10001 - nonce)") auto

declare pow_loop.simps [simp del]

text \<open>\<^verbatim>\<open>nonce = 0\<close>, then the loop.\<close>

definition generate_proof_of_verification_work :: "pylib \<Rightarrow> verifier \<Rightarrow> string \<Rightarrow> string" where
  "generate_proof_of_verification_work L self raw_data =
     fst (pow_loop (sha256_hexdigest L) (difficulty_target self) raw_data 0)"

definition proof_of_work_passes :: "pylib \<Rightarrow> verifier \<Rightarrow> string \<Rightarrow> nat" where
  "proof_of_work_passes L self raw_data =
     snd (pow_loop (sha256_hexdigest L) (difficulty_target self) raw_data 0)"

text \<open>
  The dictionaries \<open>_simulated_ping\<close> and \<open>_simulated_nmap_scan\<close> return; their contents
  are drawn at random, so one pair of them, with the reading of the clock, is the
  outcome of probing one node.
\<close>

record ping_report =
  ping_status :: string
  latency_avg_ms :: real
  packets_lost :: nat
  raw_latency_data :: string

record nmap_report =
  service_status :: string
  verified_ports_hash :: string
  scan_timestamp :: int

record probe =
  ping_results :: ping_report
  nmap_results :: nmap_report
  probe_time :: real

record verification_report =
  address :: string
  verification_timestamp :: int
  is_verified :: bool
  report_ping_results :: ping_report
  report_nmap_results :: nmap_report
  verification_hash_proof :: string
  report_difficulty_target :: string

text \<open>
  \<open>verify_node_integrity\<close>:
  \<^verbatim>\<open>is_verified = (ping_report["status"] == "SUCCESS" and nmap_report["service_status"] == "RUNNING")\<close>
  \<^verbatim>\<open>proof_input = f"{node_address}-{ping_report['raw_latency_data']}-{nmap_report['verified_ports_hash']}-{is_verified}"\<close>
  \<^verbatim>\<open>verification_proof = self._generate_proof_of_verification_work(proof_input)\<close>
\<close>

definition verify_node_integrity :: "pylib \<Rightarrow> verifier \<Rightarrow> probe \<Rightarrow> string \<Rightarrow> verification_report" where
  "verify_node_integrity L self pr node_addr =
     (let ping = ping_results pr;
          nmap = nmap_results pr;
          verified = (ping_status ping = ''SUCCESS'' \<and> service_status nmap = ''RUNNING'');
          proof_input =
            node_addr @ ''-'' @ raw_latency_data ping @ ''-'' @ verified_ports_hash nmap
              @ ''-'' @ (if verified then ''True'' else ''False'');
          verification_proof = generate_proof_of_verification_work L self proof_input
      in \<lparr>address = node_addr,
          verification_timestamp = py_int (probe_time pr),
          is_verified = verified,
          report_ping_results = ping,
          report_nmap_results = nmap,
          verification_hash_proof = verification_proof,
          report_difficulty_target = difficulty_target self\<rparr>)"

text \<open>\<^verbatim>\<open>full_reports = [self.verify_node_integrity(address) for address in node_list]\<close>\<close>

definition bulk_verify_nodes ::
  "pylib \<Rightarrow> verifier \<Rightarrow> (nat \<Rightarrow> probe) \<Rightarrow> string list \<Rightarrow> verification_report list" where
  "bulk_verify_nodes L self probes node_list =
     map (\<lambda>(i, a). verify_node_integrity L self (probes i) a) (enumerate 0 node_list)"


section \<open>TOKEN\_2\_BTZCY/btz\_reward\_logic.py\<close>

definition BTZ_REWARD_AMOUNT :: int where
  "BTZ_REWARD_AMOUNT = 150"

definition BTZ_CYCLE_TIME_SECONDS :: int where
  "BTZ_CYCLE_TIME_SECONDS = 5 * 60"

record btz_logic =
  verifier :: verifier
  btz_last_reward_time :: real

text \<open>
  The dictionary \<open>traffic_stamp\<close>: a copy of the analyzer's entry with the keys
  \<open>is_verified\<close>, \<open>verification_hash_proof\<close>, \<open>io_traffic_details\<close> and \<open>address\<close> set.
\<close>

record eligible_node =
  el_node_address :: string
  el_data_proof_hash :: string
  el_io_traffic_details :: io_traffic_details
  el_is_verified :: bool
  el_verification_hash_proof :: string
  el_address :: string

definition traffic_stamp :: "node_data \<Rightarrow> verification_report \<Rightarrow> eligible_node" where
  "traffic_stamp traffic report =
     \<lparr>el_node_address = node_address traffic,
      el_data_proof_hash = data_proof_hash traffic,
      el_io_traffic_details = io_traffic_details traffic,
      el_is_verified = is_verified report,
      el_verification_hash_proof = verification_hash_proof report,
      el_address = node_address traffic\<rparr>"

text \<open>
  The join of \<open>run_btz_consensus\<close>:
  \<^verbatim>\<open>for traffic in raw_traffic_data:\<close>
  \<^verbatim>\<open>    report = next((r for r in verified_reports if r['address'] == traffic['node_address']), None)\<close>
  \<^verbatim>\<open>    if report and report['is_verified']: ...; eligible_nodes.append(traffic_stamp)\<close>
\<close>

fun join_eligible :: "verification_report list \<Rightarrow> node_data list \<Rightarrow> eligible_node list" where
  "join_eligible verified_reports [] = []"
| "join_eligible verified_reports (traffic # rest) =
     (case find (\<lambda>r. address r = node_address traffic) verified_reports of
        None \<Rightarrow> join_eligible verified_reports rest
      | Some report \<Rightarrow>
          (if is_verified report
           then traffic_stamp traffic report # join_eligible verified_reports rest
           else join_eligible verified_reports rest))"

text \<open>
  \<open>_determine_highest_traffic_winner\<close>. Python's \<open>sorted\<close> is stable, also with
  \<open>reverse=True\<close>: it is the stable sort by the negated key.
  \<^verbatim>\<open>if not verified_traffic_data: return None\<close>
  \<^verbatim>\<open>sorted_nodes = sorted(verified_traffic_data, key=lambda x: x['io_traffic_details'].get('total_packet_count', 0), reverse=True)\<close>
  \<^verbatim>\<open>winner = sorted_nodes[0]\<close>
  \<^verbatim>\<open>if not winner['is_verified']: return None\<close>
  \<^verbatim>\<open>return winner\<close>
\<close>

definition determine_highest_traffic_winner :: "eligible_node list \<Rightarrow> eligible_node option" where
  "determine_highest_traffic_winner verified_traffic_data =
     (if verified_traffic_data = [] then None
      else
        (let sorted_nodes =
               sort_key (\<lambda>x. - int (total_packet_count (el_io_traffic_details x)))
                 verified_traffic_data;
             winner = hd sorted_nodes
         in if \<not> el_is_verified winner then None else Some winner))"

text \<open>
  The methods of class \<open>BTZRewardLogic\<close> that take a list of eligible nodes and return
  one of them or \<open>None\<close>, by name. The class defines \<open>__init__\<close>,
  \<open>_determine_highest_traffic_winner\<close>, \<open>_create_ethical_choice_challenge\<close> and
  \<open>run_btz_consensus\<close>; an attribute the object does not have raises \<open>AttributeError\<close>.
\<close>

definition BTZRewardLogic_method :: "string \<Rightarrow> (eligible_node list \<Rightarrow> eligible_node option) option" where
  "BTZRewardLogic_method name =
     (if name = ''_determine_highest_traffic_winner''
      then Some determine_highest_traffic_winner else None)"

record challenge =
  challenge_id :: string
  expiry_timestamp :: int
  reward_status :: string
  ethical_proof_hash :: string

text \<open>
  What \<open>_create_ethical_choice_challenge\<close> and the timer update read from outside: three
  readings of \<open>time.time()\<close> and the value of \<open>random.getrandbits(128)\<close>.
\<close>

record challenge_entropy =
  id_time :: real
  expiry_time :: real
  consent_bits :: nat
  update_time :: real

text \<open>
  \<^verbatim>\<open>challenge_id = hashlib.sha256(f"{winner_address}-{packet_count}-{time.time()}".encode()).hexdigest()\<close>
  \<^verbatim>\<open>expiry_timestamp = int(time.time()) + self.BTZ_CYCLE_TIME_SECONDS\<close>
  \<^verbatim>\<open>"ethical_proof_hash": f"ETHICAL_CONSENT_0x{random.getrandbits(128):X}"\<close>
\<close>

definition create_ethical_choice_challenge ::
  "pylib \<Rightarrow> challenge_entropy \<Rightarrow> string \<Rightarrow> nat \<Rightarrow> challenge" where
  "create_ethical_choice_challenge L ce winner_addr packet_count =
     \<lparr>challenge_id =
        sha256_hexdigest L
          (winner_addr @ ''-'' @ str_nat packet_count @ ''-'' @ float_str L (id_time ce)),
      expiry_timestamp = py_int (expiry_time ce) + BTZ_CYCLE_TIME_SECONDS,
      reward_status = ''PENDING_ACCEPTANCE'',
      ethical_proof_hash = ''ETHICAL_CONSENT_0x'' @ upper (hex_nat (consent_bits ce))\<rparr>"

record btz_reward =
  btz_winner_address :: string
  btz_reward_amount :: int
  btz_binary_transit_no :: nat
  btz_seedframe :: string
  btz_reward_type :: string
  btz_proof_data :: eligible_node
  btz_ethical_challenge :: challenge

text \<open>
  The rest of \<open>run_btz_consensus\<close> once the selection has returned \<open>winner_data\<close>:
  \<^verbatim>\<open>if not winner_data: return None\<close>
  \<^verbatim>\<open>challenge_payload = self._create_ethical_choice_challenge(winner_address, packet_count)\<close>
  \<^verbatim>\<open>self.last_reward_time = time.time()\<close>
  \<^verbatim>\<open>return {"winner_address": winner_address, ...}\<close>
\<close>

definition btz_finish ::
  "pylib \<Rightarrow> challenge_entropy \<Rightarrow> btz_logic \<Rightarrow> eligible_node option \<Rightarrow> btz_reward option \<times> btz_logic" where
  "btz_finish L ce self selected =
     (case selected of
        None \<Rightarrow> (None, self)
      | Some winner_data \<Rightarrow>
          (let winner_addr = el_address winner_data;
               packet_count = total_packet_count (el_io_traffic_details winner_data);
               challenge_payload = create_ethical_choice_challenge L ce winner_addr packet_count
           in (Some \<lparr>btz_winner_address = winner_addr,
                      btz_reward_amount = BTZ_REWARD_AMOUNT,
                      btz_binary_transit_no = packet_count,
                      btz_seedframe = challenge_id challenge_payload,
                      btz_reward_type = ''BTZCY-SYSTEM'',
                      btz_proof_data = winner_data,
                      btz_ethical_challenge = challenge_payload\<rparr>,
               self\<lparr>btz_last_reward_time := update_time ce\<rparr>)))"

text \<open>
  \<open>run_btz_consensus\<close>; \<open>now\<close> is the reading of \<open>time.time()\<close> at the interval check. The
  selection is the call \<^verbatim>\<open>self._determine_highest_traffic_node(eligible_nodes)\<close>: the
  attribute is looked up by this name on the object.
  \<^verbatim>\<open>if time.time() - self.last_reward_time < self.BTZ_CYCLE_TIME_SECONDS: return None\<close>
  \<^verbatim>\<open>if not all_active_nodes: return None\<close>
  \<^verbatim>\<open>raw_traffic_data = self.analyzer.aggregate_all_node_traffic(all_active_nodes)\<close>
  \<^verbatim>\<open>verified_reports = self.verifier.bulk_verify_nodes(all_active_nodes)\<close>
  \<^verbatim>\<open>winner_data = self._determine_highest_traffic_node(eligible_nodes)\<close>
\<close>

definition run_btz_consensus ::
  "pylib \<Rightarrow> real \<Rightarrow> (nat \<Rightarrow> snapshot) \<Rightarrow> (nat \<Rightarrow> probe) \<Rightarrow> challenge_entropy \<Rightarrow> btz_logic
     \<Rightarrow> string list \<Rightarrow> (py_error + btz_reward option) \<times> btz_logic" where
  "run_btz_consensus L now draw probes ce self all_active_nodes =
     (if now - btz_last_reward_time self < real_of_int BTZ_CYCLE_TIME_SECONDS
        then (Inr None, self)
      else if all_active_nodes = [] then (Inr None, self)
      else
        (let raw_traffic_data = aggregate_all_node_traffic draw all_active_nodes;
             verified_reports = bulk_verify_nodes L (verifier self) probes all_active_nodes;
             eligible_nodes = join_eligible verified_reports raw_traffic_data
         in case BTZRewardLogic_method ''_determine_highest_traffic_node'' of
              None \<Rightarrow> (Inl (AttributeError ''_determine_highest_traffic_node''), self)
            | Some select \<Rightarrow>
                (case btz_finish L ce self (select eligible_nodes) of
                   (res, self') \<Rightarrow> (Inr res, self'))))"


section \<open>main\_node\_runner.py\<close>

definition INITIAL_COMPLEXITY :: real where
  "INITIAL_COMPLEXITY = 1 / 10000000"

definition COMPLEXITY_GROWTH_INCREMENT :: real where
  "COMPLEXITY_GROWTH_INCREMENT = 1 / 10000000"



text \<open>
  The fields of \<open>BlockchainNodeRunner\<close>. The runner keeps its own \<open>current_complexity\<close>;
  the stamping engine is a separate object with a \<open>current_complexity\<close> of its own, which
  \<open>__init__\<close> sets with \<^verbatim>\<open>BlockStampingEngine(chain=List, complexity=0.1)\<close>.
\<close>

record runner =
  runner_blockchain :: "pydict list"
  runner_current_complexity :: real
  stamping_engine :: engine
  last_sdb_reward_time :: real
  last_btz_reward_time :: real

text \<open>\<open>_update_complexity\<close>: \<^verbatim>\<open>self.current_complexity += COMPLEXITY_GROWTH_INCREMENT\<close>\<close>

definition runner_update_complexity :: "runner \<Rightarrow> runner" where
  "runner_update_complexity self =
     self\<lparr>runner_current_complexity := runner_current_complexity self + COMPLEXITY_GROWTH_INCREMENT\<rparr>"






section \<open>Concrete inputs\<close>

text \<open>
  A library instance, a roster and random outcomes on which the model is evaluated.
  The digests of \<open>example_lib\<close> are stand-ins that prefix their input; they are not
  SHA-256 or SHA-512. Its float product and quotient are the exact ones, without
  rounding.
\<close>

definition example_lib :: pylib where
  "example_lib =
     \<lparr>sha256_hexdigest = (\<lambda>s. ''a1'' @ s),
      sha512_hexdigest = (\<lambda>s. ''b2'' @ s),
      format_7f = (\<lambda>x. ''0.1000000''),
      float_str = (\<lambda>x. ''1700000000.0''),
      float_mul = (\<lambda>x y. x * y),
      float_div = (\<lambda>x y. x / y),
      json_dumps_sorted = (\<lambda>d. concat (map fst d)),
      ctime = (\<lambda>t. ''Tue Nov 14 22:13:20 2023''),
      getrandbits64 = (\<lambda>r. case r of Seeded s n \<Rightarrow> nat s + n)\<rparr>"

text \<open>The same library with a SHA-256 stand-in whose digests start with \<open>000\<close>.\<close>

definition example_lib_hit :: pylib where
  "example_lib_hit = example_lib\<lparr>sha256_hexdigest := (\<lambda>s. ''000c'' @ s)\<rparr>"

definition example_roster :: "string list" where
  "example_roster = [''0xNODE_A'', ''0xNODE_B'', ''0xNODE_C'']"

text \<open>
  The analyzer's outcome: the first node's proof hash starts with \<open>ffff0\<close>, the
  second's and the third's with \<open>abcde\<close>.
\<close>

definition example_draw :: "nat \<Rightarrow> snapshot" where
  "example_draw i =
     \<lparr>snap_packets_in = 100 + i,
      snap_packets_out = 200,
      snap_latency_ms = 20,
      snap_proof_hash = (if i = 0 then ''ffff0c'' else if i = 1 then ''abcde1'' else ''abcde2'')\<rparr>"


text \<open>
  A seed frame whose target starts with \<open>abcde\<close>, and a Cycle-A object holding it whose
  timer was last set at time 0.
\<close>

definition example_seed_frame :: seed_frame where
  "example_seed_frame =
     \<lparr>seed_timestamp = 1700000000,
      seed_frame_id = ''0123456789abcdef'',
      favorite_algorithm = ''LowLatency_SHA256'',
      complexity_factor = 5 / 4,
      target_seed_transaction = ''abcde'' @ replicate 59 (CHR ''0''),
      constellation_lock_signature = replicate 64 (CHR ''f'')\<rparr>"

definition example_sdb_logic :: sdb_logic where
  "example_sdb_logic =
     \<lparr>seed_generator = \<lparr>current_seed_frame = example_seed_frame\<rparr>,
      sdb_last_reward_time = 0\<rparr>"

text \<open>
  Probes that succeed for the first two nodes and fail the ping of the third, which is
  the node with the highest packet count; and a Cycle-B object last fired at time 0.
\<close>

definition example_probes :: "nat \<Rightarrow> probe" where
  "example_probes i =
     \<lparr>ping_results =
        (if i = 2
         then \<lparr>ping_status = ''FAILED'', latency_avg_ms = 0, packets_lost = 4,
               raw_latency_data = []\<rparr>
         else \<lparr>ping_status = ''SUCCESS'', latency_avg_ms = 50, packets_lost = 0,
               raw_latency_data = ''50.000,50.000,50.000,50.000''\<rparr>),
      nmap_results =
        \<lparr>service_status = ''RUNNING'', verified_ports_hash = ''0123456789'',
         scan_timestamp = 1700000000\<rparr>,
      probe_time = 1700000000\<rparr>"

definition example_challenge_entropy :: challenge_entropy where
  "example_challenge_entropy =
     \<lparr>id_time = 1700000000, expiry_time = 1700000000, consent_bits = 255,
      update_time = 1700000001\<rparr>"

definition example_btz_logic :: btz_logic where
  "example_btz_logic = \<lparr>verifier = PingNmapVerifier_init, btz_last_reward_time = 0\<rparr>"


text \<open>
  The world at a clock reading of 1700000000.123 seconds, an engine on an empty chain
  with the complexity the runner's \<open>__init__\<close> gives it, and a runner holding that
  engine.
\<close>

definition example_world :: world where
  "example_world = \<lparr>clock = 1700000000123 / 1000, rng = Seeded 2023 0\<rparr>"

definition example_engine :: engine where
  "example_engine = \<lparr>blockchain = [], current_complexity = 1 / 10\<rparr>"

definition example_runner :: runner where
  "example_runner =
     \<lparr>runner_blockchain = [],
      runner_current_complexity = INITIAL_COMPLEXITY,
      stamping_engine = example_engine,
      last_sdb_reward_time = 0,
      last_btz_reward_time = 0\<rparr>"





section \<open>The soft encryption layer\<close>

lemma xor42_div: "(c XOR (42::nat)) div 64 = c div 64"
proof -
  have "drop_bit 6 (c XOR (42::nat)) = drop_bit 6 c XOR drop_bit 6 (42::nat)"
    by (simp only: drop_bit_xor)
  then show ?thesis by (simp add: drop_bit_eq_div)
qed

lemma xor42_range: "c < 1114112 \<Longrightarrow> c XOR (42::nat) < 1114112"
proof -
  assume "c < 1114112"
  then have "c div 64 < 17408" by simp
  then have "(c XOR 42) div 64 < 17408" by (simp only: xor42_div)
  then show ?thesis by simp
qed

lemma xor42_twice: "(c XOR (42::nat)) XOR 42 = c"
  by (simp add: xor.assoc)

lemma soft_encrypt_map: "is_pystr s \<Longrightarrow> soft_encrypt s = Inr (map (\<lambda>c. c XOR 42) s)"
  by (induction s) (simp_all add: is_pystr_def py_chr_def xor42_range)

lemma is_pystr_xor: "is_pystr s \<Longrightarrow> is_pystr (map (\<lambda>c. c XOR 42) s)"
  by (induction s) (simp_all add: is_pystr_def xor42_range)

lemma is_pystr_of_char: "is_pystr (map of_char (s :: string))"
proof -
  have "(of_char c :: nat) < 1114112" for c :: char
    using nat_of_char_less_256 [of c] by linarith
  then show ?thesis by (simp add: is_pystr_def list_all_iff)
qed

text \<open>
  Claim C10. \<open>soft_encrypt\<close> is an involution on every \<open>str\<close>: it never raises (the XOR
  with 42 changes the low six bits only, so \<open>chr\<close> stays in range), its result is a
  \<open>str\<close>, and encrypting the result gives the input back. In particular
  \<open>_prepare_block_data\<close> always returns a block, and encrypting the block's
  \<open>SOFT-ENCRYPTER\<close> field gives back the plaintext \<open>str(miner_address) + reward_type\<close>.
\<close>

theorem soft_encrypt_involution:
  "(is_pystr s \<longrightarrow> (\<exists>t. soft_encrypt s = Inr t \<and> is_pystr t \<and> soft_encrypt t = Inr s))
   \<and> (\<exists>b enc. prepare_block_data L e ts i p m r a n sf = Inr b
         \<and> map_of b ''SOFT-ENCRYPTER'' = Some (PyUni enc)
         \<and> soft_encrypt enc = Inr (map of_char (m @ r)))"
proof (intro conjI impI)
  assume s: "is_pystr s"
  let ?t = "map (\<lambda>c. c XOR 42) s"
  have "soft_encrypt ?t = Inr (map (\<lambda>c. c XOR 42) ?t)"
    using s by (intro soft_encrypt_map is_pystr_xor)
  then have "soft_encrypt ?t = Inr s" by (simp add: xor42_twice comp_def)
  with s show "\<exists>t. soft_encrypt s = Inr t \<and> is_pystr t \<and> soft_encrypt t = Inr s"
    using soft_encrypt_map is_pystr_xor by blast
next
  let ?plain = "map of_char (m @ r) :: nat list"
  let ?enc = "map (\<lambda>c. c XOR 42) ?plain"
  have p: "is_pystr ?plain" by (rule is_pystr_of_char)
  have e1: "soft_encrypt ?plain = Inr ?enc" using p by (rule soft_encrypt_map)
  have "soft_encrypt ?enc = Inr (map (\<lambda>c. c XOR 42) ?enc)"
    using p by (intro soft_encrypt_map is_pystr_xor)
  then have e2: "soft_encrypt ?enc = Inr ?plain" by (simp add: xor42_twice comp_def)
  show "\<exists>b enc. prepare_block_data L e ts i p m r a n sf = Inr b
         \<and> map_of b ''SOFT-ENCRYPTER'' = Some (PyUni enc)
         \<and> soft_encrypt enc = Inr (map of_char (m @ r))"
    using e1 e2 by (simp add: prepare_block_data_def)
qed

text \<open>On \<open>"AB"\<close> followed by the largest code point \<open>U+10FFFF\<close>.\<close>

theorem soft_encrypt_involution_witness:
  "is_pystr [65, 66, 1114111] \<and> soft_encrypt [65, 66, 1114111] = Inr [107, 104, 1114069]
   \<and> soft_encrypt [107, 104, 1114069] = Inr [65, 66, 1114111]"
  using soft_encrypt_involution [of "[65, 66, 1114111]"]
  by (simp add: is_pystr_def py_chr_def)


section \<open>Cycle A: selection of the winner\<close>

lemma scan_for_prefix_find:
  "scan_for_prefix p nodes = find (\<lambda>nd. prefix p (data_proof_hash nd)) nodes"
  by (induction nodes) simp_all

text \<open>
  Claim C5. For every list of participants and every target seed,
  \<open>_find_seed_match_winner\<close> returns \<open>None\<close> exactly when no participant's
  \<open>data_proof_hash\<close> starts with the first five characters of the seed, and returns
  \<open>winner\<close> exactly when \<open>winner\<close> stands at a position whose proof hash has that prefix
  while no earlier position's has: the first match in list order wins.
\<close>

theorem find_seed_match_winner_first_match:
  "(find_seed_match_winner nodes target_seed = None \<longleftrightarrow>
      (\<forall>nd \<in> set nodes. \<not> prefix (take 5 target_seed) (data_proof_hash nd)))
   \<and> (find_seed_match_winner nodes target_seed = Some winner \<longleftrightarrow>
      (\<exists>i < length nodes. nodes ! i = winner
         \<and> prefix (take 5 target_seed) (data_proof_hash winner)
         \<and> (\<forall>j < i. \<not> prefix (take 5 target_seed) (data_proof_hash (nodes ! j)))))"
proof -
  let ?P = "\<lambda>nd. prefix (take 5 target_seed) (data_proof_hash nd)"
  have eq: "find_seed_match_winner nodes target_seed = find ?P nodes"
    by (simp add: find_seed_match_winner_def MATCH_DIFFICULTY_LENGTH_def scan_for_prefix_find)
  have none: "find ?P nodes = None \<longleftrightarrow> (\<forall>nd \<in> set nodes. \<not> ?P nd)"
    by (auto simp: find_None_iff)
  have some: "find ?P nodes = Some winner \<longleftrightarrow>
      (\<exists>i < length nodes. nodes ! i = winner \<and> ?P winner \<and> (\<forall>j < i. \<not> ?P (nodes ! j)))"
    by (auto simp: find_Some_iff)
  show ?thesis unfolding eq using none some by blast
qed

lemma example_nodes:
  "aggregate_all_node_traffic example_draw example_roster =
     [node_entry ''0xNODE_A'' (example_draw 0), node_entry ''0xNODE_B'' (example_draw 1),
      node_entry ''0xNODE_C'' (example_draw 2)]"
  by (simp add: aggregate_all_node_traffic_def example_roster_def enumerate_eq_zip upt_rec
      numeral_2_eq_2)

text \<open>
  Nodes B and C both match the seed \<open>abcde...\<close>: B, the earlier one, is returned. No
  node matches the seed \<open>01234...\<close>.
\<close>

theorem find_seed_match_winner_first_match_witness:
  "find_seed_match_winner (aggregate_all_node_traffic example_draw example_roster)
       ''abcde0123456789'' = Some (node_entry ''0xNODE_B'' (example_draw 1))
   \<and> find_seed_match_winner (aggregate_all_node_traffic example_draw example_roster)
       ''0123456789abcde'' = None"
  using find_seed_match_winner_first_match
      [of "aggregate_all_node_traffic example_draw example_roster" "''abcde0123456789''"
          "node_entry ''0xNODE_B'' (example_draw 1)"]
    find_seed_match_winner_first_match
      [of "aggregate_all_node_traffic example_draw example_roster" "''0123456789abcde''"]
  by (simp add: example_nodes find_seed_match_winner_def MATCH_DIFFICULTY_LENGTH_def
      node_entry_def example_draw_def)


section \<open>The verifier's proof of work\<close>

text \<open>
  The loop entered with \<open>nonce \<le> 10000\<close>: it makes at least one pass and stops at the
  latest in the pass that hashes nonce 10000; every earlier pass missed the target; the
  last pass decides the result.
\<close>

lemma pow_loop_spec:
  "nonce \<le> 10000 \<Longrightarrow>
   1 \<le> snd (pow_loop H target raw nonce)
   \<and> nonce + snd (pow_loop H target raw nonce) \<le> 10001
   \<and> (\<forall>m. nonce \<le> m \<and> m < nonce + snd (pow_loop H target raw nonce) - 1
          \<longrightarrow> \<not> prefix target (H (raw @ str_nat m)))
   \<and> fst (pow_loop H target raw nonce) =
       (let h = H (raw @ str_nat (nonce + snd (pow_loop H target raw nonce) - 1))
        in if prefix target h then h else ''NonceExceeded-'' @ take 10 h)
   \<and> (\<not> prefix target (H (raw @ str_nat (nonce + snd (pow_loop H target raw nonce) - 1)))
        \<longrightarrow> nonce + snd (pow_loop H target raw nonce) = 10001)"
proof (induction H target raw nonce rule: pow_loop.induct)
  case (1 H target raw nonce)
  show ?case
  proof (cases "prefix target (H (raw @ str_nat nonce))")
    case True
    then have "pow_loop H target raw nonce = (H (raw @ str_nat nonce), 1)"
      by (subst pow_loop.simps) simp
    with True "1.prems" show ?thesis by auto
  next
    case False
    show ?thesis
    proof (cases "nonce + 1 > 10000")
      case True
      with False have "pow_loop H target raw nonce =
          (''NonceExceeded-'' @ take 10 (H (raw @ str_nat nonce)), 1)"
        by (subst pow_loop.simps) simp
      with False True "1.prems" show ?thesis by auto
    next
      case nb: False
      obtain res k where rk: "pow_loop H target raw (nonce + 1) = (res, k)"
        by (cases "pow_loop H target raw (nonce + 1)")
      from False nb rk have eq: "pow_loop H target raw nonce = (res, k + 1)"
        by (subst pow_loop.simps) simp
      from nb have le: "nonce + 1 \<le> 10000" by simp
      note IH = "1.IH" [OF False nb le, unfolded rk, simplified]
      have m: "\<not> prefix target (H (raw @ str_nat m))"
        if "nonce \<le> m" "m < nonce + k" for m
      proof (cases "m = nonce")
        case True with False show ?thesis by simp
      next
        case False
        with that have "Suc nonce \<le> m" "m < nonce + k" by simp_all
        with IH show ?thesis by simp
      qed
      from IH m show ?thesis unfolding eq by (simp add: Let_def)
    qed
  qed
qed

text \<open>
  Claim C8. \<open>_generate_proof_of_verification_work\<close> returns for every input (the loop
  is a total function: each pass either returns or raises the nonce, which is bounded by
  the cutoff). It makes at least one and at most 10001 passes through the loop body,
  hashing the nonces 0, 1, ... in turn up to the cutoff 10000; every pass before the
  last misses the difficulty target; it returns the last hash when that hash meets the
  target, and otherwise the string \<open>NonceExceeded-\<close> followed by the first ten characters
  of the last hash, which then is the hash of nonce 10000.
\<close>

theorem proof_of_work_terminates_within_cutoff:
  "1 \<le> proof_of_work_passes L self raw_data
   \<and> proof_of_work_passes L self raw_data \<le> 10001
   \<and> (\<forall>m < proof_of_work_passes L self raw_data - 1.
         \<not> prefix (difficulty_target self) (sha256_hexdigest L (raw_data @ str_nat m)))
   \<and> generate_proof_of_verification_work L self raw_data =
       (let h = sha256_hexdigest L (raw_data @ str_nat (proof_of_work_passes L self raw_data - 1))
        in if prefix (difficulty_target self) h then h else ''NonceExceeded-'' @ take 10 h)
   \<and> (\<not> prefix (difficulty_target self)
            (sha256_hexdigest L (raw_data @ str_nat (proof_of_work_passes L self raw_data - 1)))
        \<longrightarrow> proof_of_work_passes L self raw_data = 10001)"
  using pow_loop_spec [of 0 "sha256_hexdigest L" "difficulty_target self" raw_data]
  by (simp add: proof_of_work_passes_def generate_proof_of_verification_work_def)

lemma digit_chars:
  "char_of (48::nat) = CHR ''0''" "char_of (49::nat) = CHR ''1''"
  by (simp_all add: char_of_def bit_iff_odd_drop_bit)

lemma str_nat_10000: "str_nat 10000 = ''10000''"
  by (simp add: str_nat.simps digit_chars)

lemma str_nat_0: "str_nat 0 = ''0''"
  by (simp add: str_nat.simps digit_chars)

lemma pow_loop_hit:
  "prefix target (H (raw @ str_nat n)) \<Longrightarrow> pow_loop H target raw n = (H (raw @ str_nat n), 1)"
  by (subst pow_loop.simps) simp

text \<open>
  With the stand-in digest of \<open>example_lib\<close>, which never starts with \<open>000\<close>, the search
  runs into the cutoff: 10001 passes and the degraded result. With the stand-in of
  \<open>example_lib_hit\<close> the first hash meets the target: one pass, and the hash is returned.
\<close>

theorem proof_of_work_terminates_within_cutoff_witness:
  "proof_of_work_passes example_lib PingNmapVerifier_init ''0xNODE_A-'' = 10001
   \<and> generate_proof_of_verification_work example_lib PingNmapVerifier_init ''0xNODE_A-''
       = ''NonceExceeded-a10xNODE_A''
   \<and> proof_of_work_passes example_lib_hit PingNmapVerifier_init ''0xNODE_A-'' = 1
   \<and> generate_proof_of_verification_work example_lib_hit PingNmapVerifier_init ''0xNODE_A-''
       = ''000c0xNODE_A-0''"
  using proof_of_work_terminates_within_cutoff [of example_lib PingNmapVerifier_init "''0xNODE_A-''"]
    proof_of_work_terminates_within_cutoff [of example_lib_hit PingNmapVerifier_init "''0xNODE_A-''"]
    pow_loop_hit [of "''000''" "\<lambda>s. ''000c'' @ s" "''0xNODE_A-''" 0]
  by (simp add: example_lib_def example_lib_hit_def PingNmapVerifier_init_def
      MINIMUM_VERIFICATION_HASH_DIFFICULTY_def str_nat_10000 str_nat_0
      proof_of_work_passes_def generate_proof_of_verification_work_def)


section \<open>Cycle A: the seed frame and the cycle timer\<close>

lemma run_sdb_consensus_keeps_seed_generator:
  "seed_generator (snd (run_sdb_consensus now later draw self nodes)) = seed_generator self"
  by (simp add: run_sdb_consensus_def Let_def split: option.splits)

lemma example_sdb_winner:
  "find_seed_match_winner (aggregate_all_node_traffic example_draw example_roster)
     (generate_favorite_seed (seed_generator (example_sdb_logic\<lparr>sdb_last_reward_time := t\<rparr>)))
   = Some (node_entry ''0xNODE_B'' (example_draw 1))"
  by (simp add: example_nodes find_seed_match_winner_def MATCH_DIFFICULTY_LENGTH_def
      node_entry_def example_draw_def generate_favorite_seed_def example_sdb_logic_def
      example_seed_frame_def)

text \<open>
  A run of the example object on the example roster, at any time \<open>now\<close> at least 1800
  seconds after the timer: node B wins, the timer is set, nothing else changes.
\<close>

lemma example_sdb_run:
  "1800 \<le> now - t \<Longrightarrow>
   run_sdb_consensus now later example_draw (example_sdb_logic\<lparr>sdb_last_reward_time := t\<rparr>)
       example_roster =
     (Some \<lparr>sdb_winner_address = ''0xNODE_B'',
            sdb_reward_amount = 300,
            sdb_binary_transit_no = 301,
            sdb_seedframe = ''abcde'' @ replicate 59 (CHR ''0''),
            sdb_reward_type = ''@SNIFFEE-DEBUGEE'',
            sdb_proof_data = node_entry ''0xNODE_B'' (example_draw 1)\<rparr>,
      example_sdb_logic\<lparr>sdb_last_reward_time := later\<rparr>)"
proof -
  assume "1800 \<le> now - t"
  then have elapsed: "\<not> (now - sdb_last_reward_time (example_sdb_logic\<lparr>sdb_last_reward_time := t\<rparr>)
      < SDB_CYCLE_TIME_SECONDS)"
    by (simp add: SDB_CYCLE_TIME_SECONDS_def)
  have ne: "example_roster \<noteq> []" by (simp add: example_roster_def)
  show ?thesis
    using elapsed ne example_sdb_winner [of t]
    by (simp add: run_sdb_consensus_def Let_def SDB_REWARD_AMOUNT_def node_entry_def
        example_draw_def generate_favorite_seed_def example_sdb_logic_def
        example_seed_frame_def)
qed

lemma example_sdb_logic_timer:
  "example_sdb_logic\<lparr>sdb_last_reward_time := 0\<rparr> = example_sdb_logic"
  by (simp add: example_sdb_logic_def)

text \<open>
  Claim C3, at a concrete input. The example object runs at time 2000 on the example
  roster: node B wins, and on return the generator still holds the frame it held before
  the run. A second run at time 4000 wins again against the same target seed.
  \<open>run_sdb_consensus\<close> never calls \<open>refresh_seed\<close>, and no other module does.
\<close>

theorem winning_run_keeps_seed_frame:
  "map_option sdb_winner_address
     (fst (run_sdb_consensus 2000 2001 example_draw example_sdb_logic example_roster))
     = Some ''0xNODE_B''
   \<and> current_seed_frame (seed_generator
        (snd (run_sdb_consensus 2000 2001 example_draw example_sdb_logic example_roster)))
     = example_seed_frame
   \<and> map_option sdb_winner_address
        (fst (run_sdb_consensus 4000 4001 example_draw
           (snd (run_sdb_consensus 2000 2001 example_draw example_sdb_logic example_roster))
           example_roster))
     = Some ''0xNODE_B''
   \<and> map_option sdb_seedframe
        (fst (run_sdb_consensus 4000 4001 example_draw
           (snd (run_sdb_consensus 2000 2001 example_draw example_sdb_logic example_roster))
           example_roster))
     = map_option sdb_seedframe
        (fst (run_sdb_consensus 2000 2001 example_draw example_sdb_logic example_roster))"
proof -
  have r1: "run_sdb_consensus 2000 2001 example_draw example_sdb_logic example_roster =
      (Some \<lparr>sdb_winner_address = ''0xNODE_B'',
             sdb_reward_amount = 300,
             sdb_binary_transit_no = 301,
             sdb_seedframe = ''abcde'' @ replicate 59 (CHR ''0''),
             sdb_reward_type = ''@SNIFFEE-DEBUGEE'',
             sdb_proof_data = node_entry ''0xNODE_B'' (example_draw 1)\<rparr>,
       example_sdb_logic\<lparr>sdb_last_reward_time := 2001\<rparr>)"
    using example_sdb_run [of 2000 0 2001] by (simp add: example_sdb_logic_timer)
  have r2: "run_sdb_consensus 4000 4001 example_draw
      (example_sdb_logic\<lparr>sdb_last_reward_time := 2001\<rparr>) example_roster =
      (Some \<lparr>sdb_winner_address = ''0xNODE_B'',
             sdb_reward_amount = 300,
             sdb_binary_transit_no = 301,
             sdb_seedframe = ''abcde'' @ replicate 59 (CHR ''0''),
             sdb_reward_type = ''@SNIFFEE-DEBUGEE'',
             sdb_proof_data = node_entry ''0xNODE_B'' (example_draw 1)\<rparr>,
       example_sdb_logic\<lparr>sdb_last_reward_time := 4001\<rparr>)"
    using example_sdb_run [of 4000 2001 4001] by simp
  show ?thesis
    unfolding r1 by (simp add: r2) (simp add: example_sdb_logic_def)
qed

lemma run_btz_consensus_outcome:
  "run_btz_consensus L now draw probes ce self nodes =
     (if now - btz_last_reward_time self < real_of_int BTZ_CYCLE_TIME_SECONDS \<or> nodes = []
      then (Inr None, self)
      else (Inl (AttributeError ''_determine_highest_traffic_node''), self))"
  by (simp add: run_btz_consensus_def BTZRewardLogic_method_def Let_def)

text \<open>
  Claim C4. In both cycles the timer is written exactly when the run produces a winner.
  Cycle A: a run that returns \<open>None\<close> (interval not elapsed, empty roster, no match)
  leaves the object as it was; a run that returns a winner changes nothing but the
  timer, which it sets to the reading of the clock at that point, and with a clock that
  does not run backwards the timer's value changes if and only if there is a winner.
  Cycle B: no run of \<open>run_btz_consensus\<close> returns a winner and none changes the object;
  in the part of its body that follows the selection, the timer is set to the clock
  exactly when the selection is not \<open>None\<close>.
\<close>

theorem cycle_timer_updated_iff_winner:
  "(fst (run_sdb_consensus now later draw self nodes) = None \<longrightarrow>
       snd (run_sdb_consensus now later draw self nodes) = self)
   \<and> (fst (run_sdb_consensus now later draw self nodes) \<noteq> None \<longrightarrow>
       snd (run_sdb_consensus now later draw self nodes) = self\<lparr>sdb_last_reward_time := later\<rparr>)
   \<and> (now \<le> later \<longrightarrow>
       (sdb_last_reward_time (snd (run_sdb_consensus now later draw self nodes))
          \<noteq> sdb_last_reward_time self
        \<longleftrightarrow> fst (run_sdb_consensus now later draw self nodes) \<noteq> None))
   \<and> snd (run_btz_consensus L bnow bdraw probes ce bself bnodes) = bself
   \<and> fst (run_btz_consensus L bnow bdraw probes ce bself bnodes) \<noteq> Inr (Some reward)
   \<and> (fst (btz_finish L ce bself selected) = None \<longrightarrow>
        snd (btz_finish L ce bself selected) = bself)
   \<and> (fst (btz_finish L ce bself selected) \<noteq> None \<longrightarrow>
        snd (btz_finish L ce bself selected) = bself\<lparr>btz_last_reward_time := update_time ce\<rparr>)
   \<and> (fst (btz_finish L ce bself selected) = None \<longleftrightarrow> selected = None)"
proof (intro conjI)
  show "fst (run_sdb_consensus now later draw self nodes) = None \<longrightarrow>
       snd (run_sdb_consensus now later draw self nodes) = self"
    by (simp add: run_sdb_consensus_def Let_def split: option.splits)
  show "fst (run_sdb_consensus now later draw self nodes) \<noteq> None \<longrightarrow>
       snd (run_sdb_consensus now later draw self nodes) = self\<lparr>sdb_last_reward_time := later\<rparr>"
    by (simp add: run_sdb_consensus_def Let_def split: option.splits)
  show "now \<le> later \<longrightarrow>
       (sdb_last_reward_time (snd (run_sdb_consensus now later draw self nodes))
          \<noteq> sdb_last_reward_time self
        \<longleftrightarrow> fst (run_sdb_consensus now later draw self nodes) \<noteq> None)"
    by (auto simp: run_sdb_consensus_def Let_def SDB_CYCLE_TIME_SECONDS_def split: option.splits)
  show "snd (run_btz_consensus L bnow bdraw probes ce bself bnodes) = bself"
    by (simp add: run_btz_consensus_outcome)
  show "fst (run_btz_consensus L bnow bdraw probes ce bself bnodes) \<noteq> Inr (Some reward)"
    by (simp add: run_btz_consensus_outcome)
  show "fst (btz_finish L ce bself selected) = None \<longrightarrow>
        snd (btz_finish L ce bself selected) = bself"
    by (simp add: btz_finish_def Let_def split: option.splits)
  show "fst (btz_finish L ce bself selected) \<noteq> None \<longrightarrow>
        snd (btz_finish L ce bself selected) = bself\<lparr>btz_last_reward_time := update_time ce\<rparr>"
    by (simp add: btz_finish_def Let_def split: option.splits)
  show "fst (btz_finish L ce bself selected) = None \<longleftrightarrow> selected = None"
    by (simp add: btz_finish_def Let_def split: option.splits)
qed

text \<open>
  A winning run of Cycle A, a run of Cycle A on an empty roster, and a run of Cycle B
  whose interval has elapsed.
\<close>

theorem cycle_timer_updated_iff_winner_witness:
  "snd (run_sdb_consensus 2000 2001 example_draw example_sdb_logic example_roster)
     = example_sdb_logic\<lparr>sdb_last_reward_time := 2001\<rparr>
   \<and> sdb_last_reward_time
       (snd (run_sdb_consensus 2000 2001 example_draw example_sdb_logic example_roster))
     \<noteq> sdb_last_reward_time example_sdb_logic
   \<and> fst (run_sdb_consensus 2000 2001 example_draw example_sdb_logic []) = None
   \<and> snd (run_sdb_consensus 2000 2001 example_draw example_sdb_logic []) = example_sdb_logic
   \<and> snd (run_btz_consensus example_lib 2000 example_draw example_probes
        example_challenge_entropy example_btz_logic example_roster) = example_btz_logic"
  using
    cycle_timer_updated_iff_winner
      [where now = 2000 and later = 2001 and draw = example_draw and self = example_sdb_logic
         and nodes = example_roster and L = example_lib and bnow = 2000
         and bdraw = example_draw and probes = example_probes
         and ce = example_challenge_entropy and bself = example_btz_logic
         and bnodes = example_roster]
    cycle_timer_updated_iff_winner
      [where now = 2000 and later = 2001 and draw = example_draw and self = example_sdb_logic
         and nodes = "[]"]
    example_sdb_run [of 2000 0 2001]
  by (simp add: example_sdb_logic_timer) (simp add: run_sdb_consensus_def)


section \<open>Cycle B: selection of the winner\<close>

text \<open>The head of a stable sort is the first element with the least key.\<close>

lemma hd_insort_key:
  "hd (insort_key f x ys) = (if ys = [] \<or> f x \<le> f (hd ys) then x else hd ys)"
  by (cases ys) auto

lemma sort_key_eq_Nil: "sort_key f xs = [] \<longleftrightarrow> xs = []"
  by (metis length_sort list.size(3) length_0_conv)

lemma hd_sort_key_first_least:
  fixes f :: "'a \<Rightarrow> int"
  shows "xs \<noteq> [] \<Longrightarrow>
    \<exists>i < length xs. hd (sort_key f xs) = xs ! i
      \<and> (\<forall>y \<in> set xs. f (xs ! i) \<le> f y) \<and> (\<forall>j < i. f (xs ! i) < f (xs ! j))"
proof (induction xs)
  case Nil
  then show ?case by simp
next
  case (Cons x xs)
  show ?case
  proof (cases "xs = []")
    case True
    then show ?thesis by simp
  next
    case False
    from Cons.IH [OF False] obtain i where i: "i < length xs"
      "hd (sort_key f xs) = xs ! i" "\<forall>y \<in> set xs. f (xs ! i) \<le> f y"
      "\<forall>j < i. f (xs ! i) < f (xs ! j)" by blast
    have hd: "hd (sort_key f (x # xs)) = (if f x \<le> f (xs ! i) then x else xs ! i)"
      using False i(2) by (simp add: hd_insort_key sort_key_eq_Nil)
    show ?thesis
    proof (cases "f x \<le> f (xs ! i)")
      case True
      with hd i(3) have "hd (sort_key f (x # xs)) = (x # xs) ! 0
        \<and> (\<forall>y \<in> set (x # xs). f ((x # xs) ! 0) \<le> f y)
        \<and> (\<forall>j < 0. f ((x # xs) ! 0) < f ((x # xs) ! j))"
        by auto
      then show ?thesis by blast
    next
      case nle: False
      have "\<forall>j < Suc i. f ((x # xs) ! Suc i) < f ((x # xs) ! j)"
      proof (intro allI impI)
        fix j assume "j < Suc i"
        then show "f ((x # xs) ! Suc i) < f ((x # xs) ! j)"
          using nle i(4) by (cases j) auto
      qed
      with hd nle i(1,3) have "Suc i < length (x # xs)
        \<and> hd (sort_key f (x # xs)) = (x # xs) ! Suc i
        \<and> (\<forall>y \<in> set (x # xs). f ((x # xs) ! Suc i) \<le> f y)
        \<and> (\<forall>j < Suc i. f ((x # xs) ! Suc i) < f ((x # xs) ! j))"
        by auto
      then show ?thesis by blast
    qed
  qed
qed

text \<open>The join keeps verified participants only.\<close>

lemma join_eligible_verified:
  "\<forall>en \<in> set (join_eligible reports raw). el_is_verified en"
  by (induction raw) (auto simp: traffic_stamp_def split: option.splits)

text \<open>
  The method the class does define, \<open>_determine_highest_traffic_winner\<close>, returns on a
  non-empty list of verified participants the first one with the highest total packet
  count.
\<close>

lemma determine_highest_traffic_winner_first_max:
  assumes "xs \<noteq> []" "\<forall>en \<in> set xs. el_is_verified en"
  shows "\<exists>i < length xs. determine_highest_traffic_winner xs = Some (xs ! i)
      \<and> (\<forall>y \<in> set xs. total_packet_count (el_io_traffic_details y)
              \<le> total_packet_count (el_io_traffic_details (xs ! i)))
      \<and> (\<forall>j < i. total_packet_count (el_io_traffic_details (xs ! j))
              < total_packet_count (el_io_traffic_details (xs ! i)))"
proof -
  let ?f = "\<lambda>x. - int (total_packet_count (el_io_traffic_details x))"
  from hd_sort_key_first_least [OF assms(1), of ?f] obtain i where i: "i < length xs"
    "hd (sort_key ?f xs) = xs ! i" "\<forall>y \<in> set xs. ?f (xs ! i) \<le> ?f y"
    "\<forall>j < i. ?f (xs ! i) < ?f (xs ! j)" by blast
  have "el_is_verified (xs ! i)" using assms(2) i(1) by simp
  then have "determine_highest_traffic_winner xs = Some (xs ! i)"
    using assms(1) i(2) by (simp add: determine_highest_traffic_winner_def Let_def)
  with i show ?thesis by auto
qed

lemma example_reports:
  "bulk_verify_nodes L v example_probes example_roster =
     [verify_node_integrity L v (example_probes 0) ''0xNODE_A'',
      verify_node_integrity L v (example_probes 1) ''0xNODE_B'',
      verify_node_integrity L v (example_probes 2) ''0xNODE_C'']"
  by (simp add: bulk_verify_nodes_def example_roster_def enumerate_eq_zip upt_rec
      numeral_2_eq_2)

text \<open>
  On the example data node C has the highest packet count (302) and fails verification;
  among the verified nodes A (300) and B (301) the defined method selects B.
\<close>

lemma example_selection:
  "map_option el_address
     (determine_highest_traffic_winner
        (join_eligible (bulk_verify_nodes L v example_probes example_roster)
           (aggregate_all_node_traffic example_draw example_roster)))
   = Some ''0xNODE_B''"
  by (simp add: example_nodes example_reports verify_node_integrity_def Let_def
      example_probes_def node_entry_def traffic_stamp_def
      determine_highest_traffic_winner_def example_draw_def)

text \<open>
  Claim C6, at a concrete input. The interval has elapsed and the roster has three
  nodes. \<open>run_btz_consensus\<close> builds the list of verified participants and then calls
  \<open>self._determine_highest_traffic_node\<close>, a name the class does not define: the run
  raises \<open>AttributeError\<close> and selects no one, where the method that is defined,
  \<open>_determine_highest_traffic_winner\<close>, selects node B on the same list.
\<close>

theorem btz_consensus_raises_attribute_error:
  "run_btz_consensus example_lib 2000 example_draw example_probes example_challenge_entropy
     example_btz_logic example_roster
   = (Inl (AttributeError ''_determine_highest_traffic_node''), example_btz_logic)
   \<and> map_option el_address
     (determine_highest_traffic_winner
        (join_eligible
           (bulk_verify_nodes example_lib (verifier example_btz_logic) example_probes example_roster)
           (aggregate_all_node_traffic example_draw example_roster)))
   = Some ''0xNODE_B''"
  using example_selection [of example_lib "verifier example_btz_logic"]
  by (simp add: run_btz_consensus_outcome example_btz_logic_def example_roster_def
      BTZ_CYCLE_TIME_SECONDS_def)

section \<open>The stamping engine\<close>

lemma time_unbound: "''time'' \<notin> set security_hasher_globals"
  by (simp add: security_hasher_globals_def)

lemma fictional_sha4091_logic_unbound:
  "''time'' \<notin> set g \<Longrightarrow> fictional_sha4091_logic g L w seed = (Inl (NameError ''time''), w)"
  by (simp add: fictional_sha4091_logic_def Let_def)

lemma constellation_lock_key_unbound:
  "''time'' \<notin> set g \<Longrightarrow>
   constellation_lock_key g L w hard_hash complexity reward_type = (Inl (NameError ''time''), w)"
  by (simp add: constellation_lock_key_def Let_def fictional_sha4091_logic_unbound)

lemma clock_seed_range: "0 \<le> clock_seed L w \<and> clock_seed L w < 10000"
  by (simp add: clock_seed_def)

text \<open>The lock key where the name \<open>time\<close> resolves.\<close>

lemma constellation_lock_key_bound:
  "''time'' \<in> set g \<Longrightarrow>
   constellation_lock_key g L w hard_hash complexity reward_type =
     (Inr (''CONSTELLATION_LOCK:'' @ upper (take 128 (sha512_hexdigest L
        (sha512_hexdigest L (hard_hash @ ''-'' @ format_7f L complexity @ ''-'' @ reward_type)
           @ hex_nat (getrandbits64 L (Seeded (clock_seed L w) 0)))))),
      w\<lparr>rng := Seeded (clock_seed L w) 2\<rparr>)"
  using clock_seed_range [of L w]
  by (simp add: constellation_lock_key_def Let_def fictional_sha4091_logic_def random_seed_def
      CONSTELLATION_HASH_LENGTH_def)

text \<open>\<open>_prepare_block_data\<close> never raises.\<close>

lemma prepare_block_data_returns:
  "\<exists>enc. prepare_block_data L e ts index previous_hash m r a n sf =
     Inr [(''BLOCK_INDEX'', index),
          (''TIME'', PyStr (ctime L ts)),
          (''TIMESTAMP'', PyFloat ts),
          (''PREVIOUS_HASH'', previous_hash),
          (''COMPLEXITY_LEVEL'', PyFloat (current_complexity e)),
          (''WINNERS_ADDRESSES'', PyStr m),
          (''REWARD_CHAIN'', PyStr r),
          (''REWARD_AMOUNT'', PyInt a),
          (''SEEDFRAME'', PyStr sf),
          (''BINARY-TRANSIT-NO'', PyInt n),
          (''SOFT-ENCRYPTER'', PyUni enc)]"
  using soft_encrypt_map [OF is_pystr_of_char, of "m @ r"]
  by (simp add: prepare_block_data_def)

text \<open>
  In the globals of \<open>security_hasher.py\<close>, where \<open>time\<close> is unbound, no call of
  \<open>stamp_new_block\<close> returns a block: every call raises and leaves the world as it was.
\<close>

lemma stamp_new_block_unbound:
  "''time'' \<notin> set g \<Longrightarrow> \<exists>err. stamp_new_block g L w e ts m r a n sf ig = (Inl err, w)"
  by (simp add: stamp_new_block_def Let_def constellation_lock_key_unbound split: sum.splits)

text \<open>
  Where the name resolves, the stamped block links to the last block: its index is the
  last index plus one and its \<open>PREVIOUS_HASH\<close> is the last block's
  \<open>HARDCOVER_CRYPTION\<close>; on an empty chain these are 1 and 64 zero characters.
\<close>

lemma stamp_new_block_links:
  assumes g: "''time'' \<in> set g"
    and i: "dict_get (get_last_block e) ''BLOCK_INDEX'' = Inr (PyInt k)"
    and h: "dict_get (get_last_block e) ''HARDCOVER_CRYPTION'' = Inr prev"
  shows "\<exists>b w'. stamp_new_block g L w e ts m r a n sf ig = (Inr b, w')
     \<and> dict_get b ''BLOCK_INDEX'' = Inr (PyInt (k + 1))
     \<and> dict_get b ''PREVIOUS_HASH'' = Inr prev
     \<and> (\<exists>hh. dict_get b ''HARDCOVER_CRYPTION'' = Inr (PyStr hh))"
proof -
  obtain enc where p: "prepare_block_data L e ts (PyInt (k + 1)) prev m r a n sf =
     Inr [(''BLOCK_INDEX'', PyInt (k + 1)),
          (''TIME'', PyStr (ctime L ts)),
          (''TIMESTAMP'', PyFloat ts),
          (''PREVIOUS_HASH'', prev),
          (''COMPLEXITY_LEVEL'', PyFloat (current_complexity e)),
          (''WINNERS_ADDRESSES'', PyStr m),
          (''REWARD_CHAIN'', PyStr r),
          (''REWARD_AMOUNT'', PyInt a),
          (''SEEDFRAME'', PyStr sf),
          (''BINARY-TRANSIT-NO'', PyInt n),
          (''SOFT-ENCRYPTER'', PyUni enc)]"
    using prepare_block_data_returns by blast
  have "\<exists>b w'. stamp_new_block g L w e ts m r a n sf ig = (Inr b, w')
     \<and> map_of b ''BLOCK_INDEX'' = Some (PyInt (k + 1))
     \<and> map_of b ''PREVIOUS_HASH'' = Some prev
     \<and> (\<exists>hh. map_of b ''HARDCOVER_CRYPTION'' = Some (PyStr hh))"
    by (simp add: stamp_new_block_def Let_def i h p constellation_lock_key_bound [OF g])
  then show ?thesis by (auto simp: dict_get_def)
qed

lemma get_last_block_append: "get_last_block (append_block e b) = b"
  by (simp add: get_last_block_def append_block_def)

lemma stamp_after_append_links:
  assumes "''time'' \<in> set g"
    and "dict_get b ''BLOCK_INDEX'' = Inr (PyInt k)"
    and "dict_get b ''HARDCOVER_CRYPTION'' = Inr prev"
  shows "\<exists>b' w'. stamp_new_block g L w (append_block e b) ts m r a n sf ig = (Inr b', w')
     \<and> dict_get b' ''BLOCK_INDEX'' = Inr (PyInt (k + 1))
     \<and> dict_get b' ''PREVIOUS_HASH'' = Inr prev
     \<and> (\<exists>hh. dict_get b' ''HARDCOVER_CRYPTION'' = Inr (PyStr hh))"
  using assms by (intro stamp_new_block_links) (simp_all add: get_last_block_append)

lemma get_last_block_empty:
  "blockchain e = [] \<Longrightarrow>
   dict_get (get_last_block e) ''BLOCK_INDEX'' = Inr (PyInt 0)
   \<and> dict_get (get_last_block e) ''HARDCOVER_CRYPTION'' = Inr (PyStr (replicate 64 (CHR ''0'')))"
  by (simp add: get_last_block_def dict_get_def placeholder_hash_def)

text \<open>
  Claim C1, at a concrete input. The engine holds an empty chain and stamps the first
  block. The call reads the synthetic predecessor, assembles the block and computes its
  integrity hash; then \<open>constellation_lock_key\<close> reaches \<^verbatim>\<open>time.time()\<close> in a module that
  never imports \<open>time\<close>, and the call raises \<open>NameError\<close>: no block is returned.
\<close>

theorem stamp_on_empty_chain_raises:
  "stamp_new_block security_hasher_globals example_lib example_world example_engine 1700000000
     ''0xNODE_B'' ''@SNIFFEE-DEBUGEE'' 300 301 ''abcde'' False
   = (Inl (NameError ''time''), example_world)"
proof -
  obtain enc where p: "prepare_block_data example_lib example_engine 1700000000 (PyInt 1)
      (PyStr placeholder_hash) ''0xNODE_B'' ''@SNIFFEE-DEBUGEE'' 300 301 ''abcde'' = Inr enc"
    using prepare_block_data_returns by blast
  show ?thesis
    by (simp add: stamp_new_block_def Let_def get_last_block_def example_engine_def
        dict_get_def p [unfolded example_engine_def]
        constellation_lock_key_unbound [OF time_unbound])
qed

lemma prepare_block_data_complexity_level:
  "map_sum id (\<lambda>b. map_of b ''COMPLEXITY_LEVEL'')
     (prepare_block_data L e ts index previous_hash m r a n sf)
   = Inr (Some (PyFloat (current_complexity e)))"
  using prepare_block_data_returns [of L e ts index previous_hash m r a n sf]
  by auto

text \<open>The runner's \<open>_update_complexity\<close> does not reach the engine.\<close>

lemma runner_update_complexity_engine:
  "stamping_engine (runner_update_complexity self) = stamping_engine self"
  by (simp add: runner_update_complexity_def)

text \<open>
  Claim C9, at a concrete input. The runner's engine assembles a block, the runner
  applies \<open>_update_complexity\<close>, the engine assembles the next block. The runner's own
  \<open>current_complexity\<close> grows from 0.0000001 to 0.0000002; the \<open>COMPLEXITY_LEVEL\<close>
  recorded in both blocks is the engine's 0.1, since \<open>_prepare_block_data\<close> reads the
  engine's field and nothing in the runner calls the engine's \<open>update_complexity\<close>.
\<close>

theorem recorded_complexity_does_not_grow:
  "map_sum id (\<lambda>b. map_of b ''COMPLEXITY_LEVEL'')
     (prepare_block_data example_lib (stamping_engine example_runner) 1700000000
        (PyInt 1) (PyStr placeholder_hash) ''0xNODE_B'' ''@SNIFFEE-DEBUGEE'' 300 301 ''abcde'')
     = Inr (Some (PyFloat (1 / 10)))
   \<and> runner_current_complexity example_runner = 1 / 10000000
   \<and> runner_current_complexity (runner_update_complexity example_runner) = 2 / 10000000
   \<and> map_sum id (\<lambda>b. map_of b ''COMPLEXITY_LEVEL'')
     (prepare_block_data example_lib (stamping_engine (runner_update_complexity example_runner))
        1700000300 (PyInt 2) (PyStr ''a1'') ''0xNODE_B'' ''BTZCY-SYSTEM'' 150 301 ''abcde'')
     = Inr (Some (PyFloat (1 / 10)))"
  by (simp add: prepare_block_data_complexity_level runner_update_complexity_engine)
     (simp add: example_runner_def example_engine_def runner_update_complexity_def
        INITIAL_COMPLEXITY_def COMPLEXITY_GROWTH_INCREMENT_def)


section \<open>The hash layers\<close>

text \<open>
  Claim C2, at a concrete input. The lock signature is asked for an integrity hash of
  64 hex characters, the complexity 0.1 and the reward type \<open>BTZCY-SYSTEM\<close>. In the
  module as written the call builds the lock seed and computes the first SHA-512
  digest, then evaluates \<^verbatim>\<open>time.time()\<close> in a module that never imports \<open>time\<close>: it
  raises \<open>NameError\<close>, returns no lock string and leaves the clock and the random
  generator as they were. By \<open>constellation_lock_key_unbound\<close> every call ends this way.
\<close>

theorem lock_signature_raises_name_error:
  "constellation_lock_key security_hasher_globals example_lib example_world
     (replicate 64 (CHR ''a'')) (1 / 10) ''BTZCY-SYSTEM''
   = (Inl (NameError ''time''), example_world)"
  by (rule constellation_lock_key_unbound [OF time_unbound])


section \<open>The scheduler's loop body\<close>




end
